theory Spec2Isabelle
  imports Complex_Main "HOL-Library.AList"
begin

section \<open>Data model\<close>

text \<open>
  Python exceptions are values carrying their message. \<open>OSError\<close> is what \<^verbatim>\<open>open\<close>,
  \<^verbatim>\<open>write\<close> and \<^verbatim>\<open>read_csv\<close> raise, the next five are the built-in ones, and \<open>Raised\<close> is
  any exception coming out of a collaborator whose code is a parameter of the model.
\<close>

datatype error = OSError string | KeyError string | ValueError string | TypeError string
  | AttributeError string | OverflowError string | Raised string

text \<open>
  A pandas \<^verbatim>\<open>DataFrame\<close> of floats: the row labels and the column labels in their order, and
  the value stored under a pair of labels. Labels identify rows and columns (a unique index),
  floats are modelled as reals (no rounding, no NaN), and the cells outside
  \<open>index \<times> columns\<close> are never read by the code.
\<close>

record ('r, 'c) frame =
  index :: "'r list"
  columns :: "'c list"
  cells :: "'r \<Rightarrow> 'c \<Rightarrow> real"

text \<open>\<^verbatim>\<open>df.at[u, i]\<close> and \<^verbatim>\<open>df.at[u, i] = v\<close>.\<close>

definition at_get :: "('r, 'c) frame \<Rightarrow> 'r \<Rightarrow> 'c \<Rightarrow> real" where
  "at_get df u i = cells df u i"

definition at_set :: "('r, 'c) frame \<Rightarrow> 'r \<Rightarrow> 'c \<Rightarrow> real \<Rightarrow> ('r, 'c) frame" where
  "at_set df u i v = df\<lparr>cells := (cells df)(u := (cells df u)(i := v))\<rparr>"

text \<open>\<^verbatim>\<open>df.loc[u] = 0.0\<close> for a new row label, \<^verbatim>\<open>df[i] = 0.0\<close> for a new column label.\<close>

definition add_row :: "('r, 'c) frame \<Rightarrow> 'r \<Rightarrow> ('r, 'c) frame" where
  "add_row df u = df\<lparr>index := index df @ [u], cells := (cells df)(u := (\<lambda>_. 0))\<rparr>"

definition add_column :: "('r, 'c) frame \<Rightarrow> 'c \<Rightarrow> ('r, 'c) frame" where
  "add_column df i = df\<lparr>columns := columns df @ [i], cells := (\<lambda>u. (cells df u)(i := 0))\<rparr>"

text \<open>
  The interaction value of a pair as the service sees it: the cell, and 0 for a pair the
  matrix does not hold yet.
\<close>

definition stored :: "('r, 'c) frame \<Rightarrow> 'r \<Rightarrow> 'c \<Rightarrow> real" where
  "stored df u i = (if u \<in> set (index df) \<and> i \<in> set (columns df) then cells df u i else 0)"

section \<open>utils/feedback.py\<close>

text \<open>
  One line of \<^verbatim>\<open>reco_feedback.jsonl\<close>, and the log file: either the lines written so far, or
  a path that cannot be opened for appending (\<^verbatim>\<open>open\<close> raises \<open>OSError\<close>).
\<close>

record log_entry =
  le_user_id :: string
  le_item_id :: string
  le_action :: string
  le_delta :: real

datatype 'a log_file = Unwritable | Lines "'a list"

fun append_line :: "'a log_file \<Rightarrow> 'a \<Rightarrow> error + 'a log_file" where
  "append_line Unwritable e = Inl (OSError ''Permission denied'')"
| "append_line (Lines ls) e = Inr (Lines (ls @ [e]))"

text \<open>The dictionary literal of \<^verbatim>\<open>record\<close> and its \<^verbatim>\<open>.get(action, 0.1)\<close>.\<close>

definition default_deltas :: "(string \<times> real) list" where
  "default_deltas = [(''like'', 1), (''dislike'', - 1), (''skip'', 1 / 10)]"

definition default_weight :: "string \<Rightarrow> real" where
  "default_weight action = (case map_of default_deltas action of Some w \<Rightarrow> w | None \<Rightarrow> 1 / 10)"

text \<open>The two \<^verbatim>\<open>if\<close> statements that clip the new value.\<close>

definition clip :: "real \<Rightarrow> real" where
  "clip v = (let v1 = (if v > 5 then 5 else v) in if v1 < - 5 then - 5 else v1)"

text \<open>
  \<^verbatim>\<open>FeedbackManager.record\<close>. The state is the frame, mutated in place, and the log file.
  The frame is written before the log is opened, so the returned state holds the updated
  frame whether the call returns or raises.
\<close>

definition ensure_row :: "('r, 'c) frame \<Rightarrow> 'r \<Rightarrow> ('r, 'c) frame" where
  "ensure_row df u = (if u \<notin> set (index df) then add_row df u else df)"

definition ensure_column :: "('r, 'c) frame \<Rightarrow> 'c \<Rightarrow> ('r, 'c) frame" where
  "ensure_column df i = (if i \<notin> set (columns df) then add_column df i else df)"

definition update_value :: "(string, string) frame \<Rightarrow> string \<Rightarrow> string \<Rightarrow> real \<Rightarrow> (string, string) frame" where
  "update_value df user_id item_id weight =
     (let df1 = ensure_row df user_id;
          df2 = ensure_column df1 item_id;
          new_val = clip (at_get df2 user_id item_id + weight)
      in at_set df2 user_id item_id new_val)"

definition FeedbackManager_record ::
  "(string, string) frame \<times> log_entry log_file \<Rightarrow> string \<Rightarrow> string \<Rightarrow> string \<Rightarrow> real option
     \<Rightarrow> (error + unit) \<times> (string, string) frame \<times> log_entry log_file" where
  "FeedbackManager_record st user_id item_id action weight_opt =
     (let weight = (case weight_opt of None \<Rightarrow> default_weight action | Some w \<Rightarrow> w);
          df' = update_value (fst st) user_id item_id weight
      in case append_line (snd st)
                \<lparr>le_user_id = user_id, le_item_id = item_id, le_action = action, le_delta = weight\<rparr> of
           Inl e \<Rightarrow> (Inl e, df', snd st)
         | Inr log' \<Rightarrow> (Inr (), df', log'))"

text \<open>Calling \<^verbatim>\<open>record\<close> \<open>n\<close> times with the same arguments; a caller that catches a
  failed call (as the API of \<^verbatim>\<open>main.py\<close> does) goes on with the state it left.\<close>

primrec record_times ::
  "nat \<Rightarrow> (string, string) frame \<times> log_entry log_file \<Rightarrow> string \<Rightarrow> string \<Rightarrow> string
     \<Rightarrow> (string, string) frame \<times> log_entry log_file" where
  "record_times 0 st user_id item_id action = st"
| "record_times (Suc n) st user_id item_id action =
     record_times n (snd (FeedbackManager_record st user_id item_id action None)) user_id item_id action"

section \<open>utils/evaluation.py\<close>

record pr_metrics =
  precision :: real
  recall :: real
  f1 :: real

definition precision_recall_at_k :: "'c list \<Rightarrow> 'c list \<Rightarrow> int \<Rightarrow> pr_metrics" where
  "precision_recall_at_k actual predicted k0 =
     (let k = max 1 k0;
          pred_k = take (nat k) predicted;
          actual_set = set actual
      in if actual_set = {} then \<lparr>precision = 0, recall = 0, f1 = 0\<rparr>
         else
           let hits = card (actual_set \<inter> set pred_k);
               prec = real hits / real_of_int k;
               rec = real hits / real (card actual_set);
               f = (if prec + rec > 0 then 2 * prec * rec / (prec + rec) else 0)
           in \<lparr>precision = prec, recall = rec, f1 = f\<rparr>)"

text \<open>
  The \<^verbatim>\<open>for i, p in enumerate(pred_k, start=1)\<close> loop of \<^verbatim>\<open>average_precision_at_k\<close>: the
  position \<open>i\<close>, the hits so far and the score so far are the loop's variables.
\<close>

fun ap_loop :: "'c set \<Rightarrow> 'c list \<Rightarrow> nat \<Rightarrow> nat \<Rightarrow> real \<Rightarrow> real" where
  "ap_loop actual_set [] i hits score = score"
| "ap_loop actual_set (p # ps) i hits score =
     (if p \<in> actual_set
      then ap_loop actual_set ps (i + 1) (hits + 1) (score + real (hits + 1) / real i)
      else ap_loop actual_set ps (i + 1) hits score)"

definition average_precision_at_k :: "'c list \<Rightarrow> 'c list \<Rightarrow> int \<Rightarrow> real" where
  "average_precision_at_k actual predicted k0 =
     (let k = max 1 k0;
          pred_k = take (nat k) predicted;
          actual_set = set actual;
          score = ap_loop actual_set pred_k 1 0 0;
          denom = min (nat k) (card actual_set)
      in if denom > 0 then score / real denom else 0)"

text \<open>
  The recommender is an object with a \<^verbatim>\<open>recommend(user_id, top_n)\<close> method: it has a state of
  its own, reads the interaction frame it was given (the caller's frame, by reference), and
  returns a list of dictionaries or raises. It does not write the caller's frame.
\<close>

type_synonym ('s, 'r, 'c) recommender =
  "'s \<Rightarrow> ('r, 'c) frame \<Rightarrow> 'r \<Rightarrow> int \<Rightarrow> (error + (string \<times> 'c) list list) \<times> 's"

text \<open>\<^verbatim>\<open>[r["id"] for r in recs]\<close>: a dictionary without the key raises \<open>KeyError\<close>.\<close>

fun ids :: "(string \<times> 'c) list list \<Rightarrow> error + 'c list" where
  "ids [] = Inr []"
| "ids (r # rs) =
     (case map_of r ''id'' of
        None \<Rightarrow> Inl (KeyError ''id'')
      | Some v \<Rightarrow> (case ids rs of Inl e \<Rightarrow> Inl e | Inr vs \<Rightarrow> Inr (v # vs)))"

record metric_lists =
  precisions :: "real list"
  recalls :: "real list"
  f1s :: "real list"
  maps :: "real list"

definition append_metrics :: "metric_lists \<Rightarrow> pr_metrics \<Rightarrow> real \<Rightarrow> metric_lists" where
  "append_metrics acc m ap =
     \<lparr>precisions = precisions acc @ [precision m], recalls = recalls acc @ [recall m],
      f1s = f1s acc @ [f1 m], maps = maps acc @ [ap]\<rparr>"

text \<open>\<^verbatim>\<open>list(row[row > 0].index)\<close>: the columns whose value in the user's row is positive.\<close>

definition pos_items :: "('r, 'c) frame \<Rightarrow> 'r \<Rightarrow> 'c list" where
  "pos_items df user_id = filter (\<lambda>c. cells df user_id c > 0) (columns df)"

text \<open>The body of the \<^verbatim>\<open>try\<close> block: the recommend call and the four appends.\<close>

definition try_body ::
  "('s, 'r, 'c) recommender \<Rightarrow> 's \<Rightarrow> ('r, 'c) frame \<Rightarrow> 'r \<Rightarrow> 'c \<Rightarrow> int \<Rightarrow> metric_lists
     \<Rightarrow> (error + metric_lists) \<times> 's" where
  "try_body recommend s df user_id test_item k acc =
     (case recommend s df user_id k of
        (Inl e, s') \<Rightarrow> (Inl e, s')
      | (Inr recs, s') \<Rightarrow>
          (case ids recs of
             Inl e \<Rightarrow> (Inl e, s')
           | Inr pred \<Rightarrow>
               (Inr (append_metrics acc (precision_recall_at_k [test_item] pred k)
                       (average_precision_at_k [test_item] pred k)), s')))"

text \<open>
  One iteration of the \<^verbatim>\<open>for user_id, row in interactions_df.iterrows()\<close> loop. The
  \<^verbatim>\<open>finally\<close> clause writes the original value back on both exits of the \<^verbatim>\<open>try\<close> block; there
  is no \<^verbatim>\<open>except\<close> clause, so an exception leaves the iteration, and the loop, after that.
\<close>

definition eval_user ::
  "('s, 'r, 'c) recommender \<Rightarrow> int \<Rightarrow> 'r \<Rightarrow> 's \<times> ('r, 'c) frame \<times> metric_lists
     \<Rightarrow> (error + unit) \<times> 's \<times> ('r, 'c) frame \<times> metric_lists" where
  "eval_user recommend k user_id st =
     (case st of (s, df, acc) \<Rightarrow>
        (case pos_items df user_id of
           [] \<Rightarrow> (Inr (), s, df, acc)
         | test_item # _ \<Rightarrow>
             (let original = at_get df user_id test_item;
                  df1 = at_set df user_id test_item 0
              in case try_body recommend s df1 user_id test_item k acc of
                   (Inl e, s') \<Rightarrow> (Inl e, s', at_set df1 user_id test_item original, acc)
                 | (Inr acc', s') \<Rightarrow> (Inr (), s', at_set df1 user_id test_item original, acc'))))"

fun eval_loop ::
  "('s, 'r, 'c) recommender \<Rightarrow> int \<Rightarrow> 'r list \<Rightarrow> 's \<times> ('r, 'c) frame \<times> metric_lists
     \<Rightarrow> (error + unit) \<times> 's \<times> ('r, 'c) frame \<times> metric_lists" where
  "eval_loop recommend k [] st = (Inr (), st)"
| "eval_loop recommend k (user_id # users) st =
     (case eval_user recommend k user_id st of
        (Inl e, st') \<Rightarrow> (Inl e, st')
      | (Inr _, st') \<Rightarrow> eval_loop recommend k users st')"

text \<open>\<^verbatim>\<open>avg\<close>, and \<^verbatim>\<open>round(x, 6)\<close> (to the nearest multiple of \<open>10\<^sup>-\<^sup>6\<close>, halves to even).\<close>

definition avg :: "real list \<Rightarrow> real" where
  "avg x = (if x \<noteq> [] then sum_list x / real (length x) else 0)"

definition round_half_even :: "real \<Rightarrow> int" where
  "round_half_even x =
     (let f = \<lfloor>x\<rfloor>; d = x - of_int f
      in if d < 1 / 2 then f else if d > 1 / 2 then f + 1 else if even f then f else f + 1)"

definition round6 :: "real \<Rightarrow> real" where
  "round6 x = of_int (round_half_even (x * 1000000)) / 1000000"

record eval_metrics =
  precision_at_k :: real
  recall_at_k :: real
  f1_at_k :: real
  map_at_k :: real

definition summary :: "metric_lists \<Rightarrow> eval_metrics" where
  "summary acc =
     \<lparr>precision_at_k = round6 (avg (precisions acc)), recall_at_k = round6 (avg (recalls acc)),
      f1_at_k = round6 (avg (f1s acc)), map_at_k = round6 (avg (maps acc))\<rparr>"

text \<open>
  \<^verbatim>\<open>evaluate_holdout_at_k\<close>: the result or the exception that left it, the recommender's
  state, and the frame as the call leaves it.
\<close>

definition evaluate_holdout_at_k ::
  "('s, 'r, 'c) recommender \<Rightarrow> 's \<Rightarrow> ('r, 'c) frame \<Rightarrow> int
     \<Rightarrow> (error + eval_metrics) \<times> 's \<times> ('r, 'c) frame" where
  "evaluate_holdout_at_k recommend s interactions_df k =
     (case eval_loop recommend k (index interactions_df)
             (s, interactions_df, \<lparr>precisions = [], recalls = [], f1s = [], maps = []\<rparr>) of
        (Inl e, s', df', acc) \<Rightarrow> (Inl e, s', df')
      | (Inr _, s', df', acc) \<Rightarrow> (Inr (summary acc), s', df'))"

section \<open>utils/preprocessing.py\<close>

text \<open>
  What \<^verbatim>\<open>read_csv\<close> yields for \<^verbatim>\<open>items.csv\<close>: the named columns in file order, each cell a text
  or missing (pandas' NaN). The inference of numeric column types is not modelled. After
  the \<^verbatim>\<open>tags\<close> step a cell may hold a list of strings.
\<close>

type_synonym csv_table = "(string \<times> string option list) list"

datatype cell = NaN | Str string | StrList "string list"

type_synonym table = "(string \<times> cell list) list"

definition cell_of :: "string option \<Rightarrow> cell" where
  "cell_of v = (case v of None \<Rightarrow> NaN | Some s \<Rightarrow> Str s)"

definition n_rows :: "(string \<times> 'a list) list \<Rightarrow> nat" where
  "n_rows t = (case t of [] \<Rightarrow> 0 | (_, vs) # _ \<Rightarrow> length vs)"

text \<open>\<^verbatim>\<open>s.split(',')\<close> and \<^verbatim>\<open>t.strip()\<close> on ASCII text.\<close>

fun split_on :: "char \<Rightarrow> string \<Rightarrow> string list" where
  "split_on c [] = [[]]"
| "split_on c (x # xs) =
     (if x = c then [] # split_on c xs
      else (case split_on c xs of [] \<Rightarrow> [[x]] | y # ys \<Rightarrow> (x # y) # ys))"

definition is_space :: "char \<Rightarrow> bool" where
  "is_space c = (let n = (of_char c :: nat) in (9 \<le> n \<and> n \<le> 13) \<or> (28 \<le> n \<and> n \<le> 32))"

definition strip :: "string \<Rightarrow> string" where
  "strip s = rev (dropWhile is_space (rev (dropWhile is_space s)))"

definition parse_tags :: "string option \<Rightarrow> cell" where
  "parse_tags v =
     (let s = (case v of None \<Rightarrow> [] | Some s \<Rightarrow> s)
      in StrList (map strip (filter (\<lambda>t. strip t \<noteq> []) (split_on (CHR '','') s))))"

text \<open>\<^verbatim>\<open>df.reindex(columns=target, fill_value=fill)\<close> on a frame whose column labels are unique
  (\<^verbatim>\<open>read_csv\<close> renames repeated headers).\<close>

definition reindex_columns :: "('r, 'c) frame \<Rightarrow> 'c list \<Rightarrow> real \<Rightarrow> ('r, 'c) frame" where
  "reindex_columns df target fill_value =
     df\<lparr>columns := target,
        cells := (\<lambda>u c. if c \<in> set (columns df) then cells df u c else fill_value)\<rparr>"

text \<open>
  The first half of \<^verbatim>\<open>load_reco_datasets\<close>: the \<^verbatim>\<open>tags\<close> column parsed into lists (or created
  empty) and the \<^verbatim>\<open>category\<close> column defaulted. \<^verbatim>\<open>items["tags"] = ...\<close> replaces the column
  where it stands or appends it, as \<open>AList.update\<close> does.
\<close>

definition standardize_items :: "csv_table \<Rightarrow> table" where
  "standardize_items raw =
     (let items0 = map (\<lambda>(c, vs). (c, map cell_of vs)) raw;
          items1 = (case map_of raw ''tags'' of
                      Some vs \<Rightarrow> AList.update ''tags'' (map parse_tags vs) items0
                    | None \<Rightarrow> AList.update ''tags'' (replicate (n_rows raw) (StrList [])) items0)
      in if ''category'' \<notin> fst ` set items1
         then AList.update ''category'' (replicate (n_rows raw) (Str ''Item'')) items1
         else items1)"

text \<open>
  \<^verbatim>\<open>load_reco_datasets\<close>, given what the two \<^verbatim>\<open>read_csv\<close> calls yield (a table or the
  exception they raise). The headers of \<^verbatim>\<open>interactions.csv\<close> are text cells. The
  interactions are read before the \<^verbatim>\<open>item_id\<close> column is looked for.
\<close>

definition load_reco_datasets ::
  "error + csv_table \<Rightarrow> error + ('r, cell) frame \<Rightarrow> error + table \<times> ('r, cell) frame" where
  "load_reco_datasets items_csv interactions_csv =
     (case items_csv of
        Inl e \<Rightarrow> Inl e
      | Inr raw \<Rightarrow>
          (let items = standardize_items raw
           in case interactions_csv of
                Inl e \<Rightarrow> Inl e
              | Inr interactions \<Rightarrow>
                  (case map_of items ''item_id'' of
                     Some item_ids \<Rightarrow> Inr (items, reindex_columns interactions item_ids 0)
                   | None \<Rightarrow> Inl (ValueError ''items.csv must include item_id column''))))"

section \<open>app/recommendations.py\<close>

text \<open>
  A Python \<^verbatim>\<open>float\<close>: a finite value, taken as the real it stands for, or one of the three
  values that are not finite.
\<close>

datatype nonfinite = PosInf | NegInf | NotANumber

datatype pyfloat = Finite real | NonFinite nonfinite

text \<open>\<^verbatim>\<open>x <= 0\<close> on a float: false for NaN and for \<open>+inf\<close>.\<close>

fun le_zero :: "pyfloat \<Rightarrow> bool" where
  "le_zero (Finite r) = (r \<le> 0)"
| "le_zero (NonFinite NegInf) = True"
| "le_zero (NonFinite PosInf) = False"
| "le_zero (NonFinite NotANumber) = False"

text \<open>
  JSON values as \<^verbatim>\<open>json.loads\<close> hands them to Python: an integer literal is an \<^verbatim>\<open>int\<close> of any
  size (\<open>JInt\<close>), a literal with a fraction or an exponent is a \<^verbatim>\<open>float\<close>, finite (\<open>JNum\<close>) or
  not (\<open>JNonFinite\<close>: the literals \<^verbatim>\<open>NaN\<close>, \<^verbatim>\<open>Infinity\<close>, \<^verbatim>\<open>-Infinity\<close>, or an exponent out of
  range). The entries of an object have distinct keys.
\<close>

datatype json = JNull | JBool bool | JInt int | JNum real | JNonFinite nonfinite | JStr string
  | JArr "json list" | JObj "(string \<times> json) list"

definition json_of_float :: "pyfloat \<Rightarrow> json" where
  "json_of_float f = (case f of Finite r \<Rightarrow> JNum r | NonFinite n \<Rightarrow> JNonFinite n)"

fun truthy :: "json \<Rightarrow> bool" where
  "truthy JNull = False"
| "truthy (JBool b) = b"
| "truthy (JInt n) = (n \<noteq> 0)"
| "truthy (JNum r) = (r \<noteq> 0)"
| "truthy (JNonFinite n) = True"
| "truthy (JStr s) = (s \<noteq> [])"
| "truthy (JArr xs) = (xs \<noteq> [])"
| "truthy (JObj kvs) = (kvs \<noteq> [])"

text \<open>
  \<^verbatim>\<open>float(x)\<close> and \<^verbatim>\<open>int(x)\<close>. The grammar of numeric literals inside strings is a parameter:
  \<open>parse\<close> gives the value a string denotes, if it denotes one (\<^verbatim>\<open>float\<close> also reads
  \<^verbatim>\<open>"nan"\<close> and \<^verbatim>\<open>"inf"\<close>). An \<^verbatim>\<open>int\<close> is converted when it rounds to a double, that is when its
  magnitude is below \<open>2 ^ 1024 - 2 ^ 970\<close>, and raises \<open>OverflowError\<close> otherwise; the
  rounding itself is not modelled. The messages of the exceptions are shortened.
\<close>

definition int_too_large :: "int \<Rightarrow> bool" where
  "int_too_large n = (\<bar>n\<bar> \<ge> 2 ^ 1024 - 2 ^ 970)"

fun py_float :: "(string \<Rightarrow> pyfloat option) \<Rightarrow> json \<Rightarrow> error + pyfloat" where
  "py_float parse (JNum r) = Inr (Finite r)"
| "py_float parse (JNonFinite n) = Inr (NonFinite n)"
| "py_float parse (JInt n) =
     (if int_too_large n then Inl (OverflowError ''int too large to convert to float'')
      else Inr (Finite (of_int n)))"
| "py_float parse (JBool b) = Inr (Finite (if b then 1 else 0))"
| "py_float parse (JStr s) =
     (case parse s of None \<Rightarrow> Inl (ValueError ''could not convert string to float'') | Some f \<Rightarrow> Inr f)"
| "py_float parse _ = Inl (TypeError ''float() argument must be a string or a real number'')"


text \<open>\<^verbatim>\<open>data.get(key)\<close>: only a dictionary has the method.\<close>

definition dict_get :: "json \<Rightarrow> string \<Rightarrow> error + json option" where
  "dict_get data key =
     (case data of JObj kvs \<Rightarrow> Inr (map_of kvs key)
      | _ \<Rightarrow> Inl (AttributeError ''object has no attribute get''))"

text \<open>\<^verbatim>\<open>str(e)\<close>: the message; a \<open>KeyError\<close> prints its key quoted.\<close>

fun str_error :: "error \<Rightarrow> string" where
  "str_error (KeyError m) = [CHR 0x27] @ m @ [CHR 0x27]"
| "str_error (OSError m) = m"
| "str_error (ValueError m) = m"
| "str_error (TypeError m) = m"
| "str_error (AttributeError m) = m"
| "str_error (OverflowError m) = m"
| "str_error (Raised m) = m"



text \<open>
  The engine class and \<^verbatim>\<open>evaluate_at_k\<close> live in \<^verbatim>\<open>models/recommendations.py\<close>, which the
  endpoints import: they are parameters here. Each may raise, and a call may change the
  engine object even when it raises.
\<close>

record 'e engine_api =
  make_engine :: "error + 'e"
  eng_feedback :: "'e \<Rightarrow> json \<Rightarrow> json \<Rightarrow> pyfloat \<Rightarrow> (error + unit) \<times> 'e"
  evaluate_at_k :: "'e \<Rightarrow> int \<Rightarrow> string \<Rightarrow> (error + (string \<times> json) list) \<times> 'e"

text \<open>The module's globals \<^verbatim>\<open>_ENGINE\<close>, \<^verbatim>\<open>_LAST_EVAL\<close>, \<^verbatim>\<open>_LAST_EVAL_RESULT\<close>, and the log file
  of the feedback endpoint.\<close>

record 'e app_state =
  ENGINE :: "'e option"
  LAST_EVAL :: "real option"
  LAST_EVAL_RESULT :: "(string \<times> json) list option"
  feedback_log :: "json log_file"

record response =
  status_code :: nat
  body :: json

definition error_response :: "nat \<Rightarrow> string \<Rightarrow> response" where
  "error_response code msg =
     \<lparr>status_code = code, body = JObj [(''status'', JStr ''error''), (''error'', JStr msg)]\<rparr>"

definition get_engine :: "'e engine_api \<Rightarrow> 'e app_state \<Rightarrow> (error + 'e) \<times> 'e app_state" where
  "get_engine api st =
     (case ENGINE st of
        Some eng \<Rightarrow> (Inr eng, st)
      | None \<Rightarrow>
          (case make_engine api of
             Inl e \<Rightarrow> (Inl e, st)
           | Inr eng \<Rightarrow> (Inr eng, st\<lparr>ENGINE := Some eng\<rparr>)))"

definition get_or_none :: "json option \<Rightarrow> json" where
  "get_or_none v = (case v of None \<Rightarrow> JNull | Some j \<Rightarrow> j)"

text \<open>
  The \<^verbatim>\<open>try\<close> block of the \<^verbatim>\<open>feedback\<close> endpoint: what \<^verbatim>\<open>request.get_json()\<close> yields (a value
  or the exception of a malformed body), the timestamp, and the state. The rating is
  converted before the identifiers are looked at.
\<close>

definition feedback_try ::
  "'e engine_api \<Rightarrow> (string \<Rightarrow> pyfloat option) \<Rightarrow> string \<Rightarrow> error + json \<Rightarrow> 'e app_state
     \<Rightarrow> (error + response) \<times> 'e app_state" where
  "feedback_try api parse ts request_json st =
     (case request_json of
        Inl e \<Rightarrow> (Inl e, st)
      | Inr j \<Rightarrow>
     (let data = (if truthy j then j else JObj []) in
      case dict_get data ''user_id'' of Inl e \<Rightarrow> (Inl e, st) | Inr uo \<Rightarrow>
      case dict_get data ''item_id'' of Inl e \<Rightarrow> (Inl e, st) | Inr io \<Rightarrow>
      case dict_get data ''rating'' of Inl e \<Rightarrow> (Inl e, st) | Inr ro \<Rightarrow>
      case py_float parse (case ro of None \<Rightarrow> JInt 0 | Some v \<Rightarrow> v) of Inl e \<Rightarrow> (Inl e, st) | Inr rating \<Rightarrow>
     (let user_id = get_or_none uo; item_id = get_or_none io in
      if \<not> truthy user_id \<or> \<not> truthy item_id
      then (Inr (error_response 400 ''user_id and item_id are required''), st)
      else if le_zero rating
      then (Inr (error_response 400 ''rating must be > 0''), st)
      else
        case get_engine api st of (Inl e, st1) \<Rightarrow> (Inl e, st1) | (Inr eng, st1) \<Rightarrow>
        case eng_feedback api eng user_id item_id rating of
          (Inl e, eng') \<Rightarrow> (Inl e, st1\<lparr>ENGINE := Some eng'\<rparr>)
        | (Inr _, eng') \<Rightarrow>
            (let st2 = st1\<lparr>ENGINE := Some eng'\<rparr> in
             case dict_get data ''context'' of Inl e \<Rightarrow> (Inl e, st2) | Inr co \<Rightarrow>
             case append_line (feedback_log st2)
                    (JObj [(''ts'', JStr ts), (''user_id'', user_id), (''item_id'', item_id),
                           (''rating'', json_of_float rating), (''context'', get_or_none co)]) of
               Inl e \<Rightarrow> (Inl e, st2)
             | Inr lg \<Rightarrow>
                 (Inr \<lparr>status_code = 200,
                       body = JObj [(''status'', JStr ''success''),
                                    (''message'', JStr ''feedback recorded'')]\<rparr>,
                  st2\<lparr>feedback_log := lg\<rparr>)))))"

text \<open>\<^verbatim>\<open>except Exception as e\<close>: any exception becomes a 500 answer with its message.\<close>

definition feedback ::
  "'e engine_api \<Rightarrow> (string \<Rightarrow> pyfloat option) \<Rightarrow> string \<Rightarrow> error + json \<Rightarrow> 'e app_state
     \<Rightarrow> response \<times> 'e app_state" where
  "feedback api parse ts request_json st =
     (case feedback_try api parse ts request_json st of
        (Inl e, st') \<Rightarrow> (error_response 500 (str_error e), st')
      | (Inr resp, st') \<Rightarrow> (resp, st'))"








section \<open>Concrete inputs\<close>

text \<open>
  A matrix of two users and two items in which each user has one positive item, a
  recommender without state that raises for one given user and recommends the given items
  to every other user, and one that does the same and counts the calls it received.
\<close>

definition two_users :: "(string, string) frame" where
  "two_users =
     \<lparr>index = [''u1'', ''u2''], columns = [''i1'', ''i2''],
      cells = (\<lambda>u i. if u = ''u1'' \<and> i = ''i1'' then 1 else if u = ''u2'' \<and> i = ''i2'' then 3 else 0)\<rparr>"


definition raising_for :: "string \<Rightarrow> string list \<Rightarrow> (unit, string, string) recommender" where
  "raising_for bad items s df user_id top_n =
     (if user_id = bad then (Inl (Raised ''recommend failed''), s)
      else (Inr (map (\<lambda>i. [(''id'', i)]) items), s))"

text \<open>
  A catalog of two items, and an interaction table that has a column for the second item
  and for an item the catalog does not list.
\<close>

definition catalog_csv :: csv_table where
  "catalog_csv =
     [(''item_id'', [Some ''A'', Some ''B'']), (''title'', [Some ''Breathing'', None]),
      (''tags'', [Some ''calm, sleep ,'', None])]"

definition ratings_csv :: "(string, cell) frame" where
  "ratings_csv =
     \<lparr>index = [''U''], columns = [Str ''B'', Str ''Z''],
      cells = (\<lambda>u c. if c = Str ''B'' then 2 else 7)\<rparr>"

text \<open>
  An engine that only counts the feedback calls it received and evaluates to a fixed
  result per \<open>k\<close>, a parser that knows two literals, and the state of a fresh process.
\<close>

definition counting_engine :: "nat engine_api" where
  "counting_engine =
     \<lparr>make_engine = Inr 0,
      eng_feedback = (\<lambda>eng user_id item_id rating. (Inr (), eng + 1)),
      evaluate_at_k = (\<lambda>eng k strategy. (Inr [(''precision@k'', JNum (1 / of_int k))], eng))\<rparr>"

definition two_literals :: "string \<Rightarrow> pyfloat option" where
  "two_literals s =
     (if s = ''0'' then Some (Finite 0) else if s = ''4.5'' then Some (Finite (9 / 2)) else None)"


definition fresh_state :: "nat app_state" where
  "fresh_state = \<lparr>ENGINE = None, LAST_EVAL = None, LAST_EVAL_RESULT = None, feedback_log = Lines []\<rparr>"

section \<open>Feedback: the value written\<close>

lemma update_value_cell:
  "cells (update_value df u i w) u i = clip (stored df u i + w)"
  by (simp add: update_value_def ensure_row_def ensure_column_def add_row_def add_column_def
      at_get_def at_set_def stored_def Let_def)

lemma update_value_stored:
  "stored (update_value df u i w) u i = clip (stored df u i + w)"
  by (simp add: update_value_def ensure_row_def ensure_column_def add_row_def add_column_def
      at_get_def at_set_def stored_def Let_def)

lemma clip_bounds: "- 5 \<le> clip v \<and> clip v \<le> 5"
  by (simp add: clip_def Let_def)

lemma clip_eq: "clip v = max (- 5) (min 5 v)"
  by (simp add: clip_def Let_def max_def min_def)

lemma record_frame:
  "fst (snd (FeedbackManager_record st u i a wo)) =
     update_value (fst st) u i (case wo of None \<Rightarrow> default_weight a | Some w \<Rightarrow> w)"
  by (simp add: FeedbackManager_record_def Let_def split: sum.splits)

lemma record_log_ok:
  "snd (snd (FeedbackManager_record (df, Lines ls) u i a wo)) =
     Lines (ls @ [\<lparr>le_user_id = u, le_item_id = i, le_action = a,
                    le_delta = (case wo of None \<Rightarrow> default_weight a | Some w \<Rightarrow> w)\<rparr>])"
  by (simp add: FeedbackManager_record_def Let_def)

lemma record_result_ok:
  "fst (FeedbackManager_record (df, Lines ls) u i a wo) = Inr ()"
  by (simp add: FeedbackManager_record_def Let_def)

lemma record_result_fail:
  "fst (FeedbackManager_record (df, Unwritable) u i a wo) = Inl (OSError ''Permission denied'')"
  by (simp add: FeedbackManager_record_def Let_def)

text \<open>
  C6: without an explicit weight the delta is \<open>1\<close> for \<^verbatim>\<open>like\<close>, \<open>-1\<close> for \<^verbatim>\<open>dislike\<close> and
  \<open>1/10\<close> for \<^verbatim>\<open>skip\<close>: it is the delta written to the log, and the value stored for
  the pair is the old value (0 for a new pair) plus that delta, clipped to \<open>[-5, 5]\<close>.
\<close>

theorem record_default_deltas:
  "default_weight ''like'' = 1 \<and> default_weight ''dislike'' = - 1 \<and> default_weight ''skip'' = 1 / 10 \<and>
   (let r = FeedbackManager_record (df, lg) u i a None
    in cells (fst (snd r)) u i = clip (stored df u i + default_weight a) \<and>
       (\<forall>ls. lg = Lines ls \<longrightarrow>
          snd (snd r) = Lines (ls @ [\<lparr>le_user_id = u, le_item_id = i, le_action = a,
                                       le_delta = default_weight a\<rparr>])))"
proof -
  have w: "default_weight ''like'' = 1" "default_weight ''dislike'' = - 1"
    "default_weight ''skip'' = 1 / 10"
    by (simp_all add: default_weight_def default_deltas_def)
  have c: "cells (fst (snd (FeedbackManager_record (df, lg) u i a None))) u i
             = clip (stored df u i + default_weight a)"
    by (simp add: record_frame update_value_cell)
  have l: "snd (snd (FeedbackManager_record (df, Lines ls) u i a None))
             = Lines (ls @ [\<lparr>le_user_id = u, le_item_id = i, le_action = a,
                                 le_delta = default_weight a\<rparr>])" for ls
    by (simp add: record_log_ok)
  show ?thesis
    unfolding Let_def using w c l by blast
qed

theorem record_default_deltas_witness:
  "default_weight ''skip'' = 1 / 10 \<and>
   cells (fst (snd (FeedbackManager_record
       (\<lparr>index = [''u1''], columns = [''i1''], cells = (\<lambda>_ _. 2)\<rparr>, Lines []) ''u1'' ''i1'' ''dislike'' None)))
     ''u1'' ''i1'' = 1 \<and>
   snd (snd (FeedbackManager_record
       (\<lparr>index = [''u1''], columns = [''i1''], cells = (\<lambda>_ _. 2)\<rparr>, Lines []) ''u1'' ''i1'' ''dislike'' None))
     = Lines [\<lparr>le_user_id = ''u1'', le_item_id = ''i1'', le_action = ''dislike'', le_delta = - 1\<rparr>]"
  using record_default_deltas [of "\<lparr>index = [''u1''], columns = [''i1''], cells = (\<lambda>_ _. 2)\<rparr>"
      "Lines []" "''u1''" "''i1''" "''dislike''"]
  by (simp add: Let_def stored_def clip_def)

lemma record_stored:
  "stored (fst (snd (FeedbackManager_record (df, lg) u i a wo))) u i
     = clip (stored df u i + (case wo of None \<Rightarrow> default_weight a | Some w \<Rightarrow> w))"
  by (simp add: record_frame update_value_stored)

lemma record_at_get:
  "at_get (fst (snd (FeedbackManager_record (df, lg) u i a wo))) u i
     = clip (stored df u i + (case wo of None \<Rightarrow> default_weight a | Some w \<Rightarrow> w))"
  by (simp add: record_frame update_value_cell at_get_def)

lemma default_weight_like: "default_weight ''like'' = 1"
  by (simp add: default_weight_def default_deltas_def)

lemma default_weight_unknown:
  "a \<noteq> ''like'' \<Longrightarrow> a \<noteq> ''dislike'' \<Longrightarrow> a \<noteq> ''skip'' \<Longrightarrow> default_weight a = 1 / 10"
  by (simp add: default_weight_def default_deltas_def)

lemma default_weight_skip: "default_weight ''skip'' = 1 / 10"
  by (simp add: default_weight_def default_deltas_def)

lemma record_times_cell_bounds:
  "- 5 \<le> stored (fst st) u i \<and> stored (fst st) u i \<le> 5 \<Longrightarrow>
   - 5 \<le> stored (fst (record_times n st u i a)) u i \<and> stored (fst (record_times n st u i a)) u i \<le> 5"
proof (induction n arbitrary: st)
  case 0
  then show ?case by simp
next
  case (Suc n)
  let ?st' = "snd (FeedbackManager_record st u i a None)"
  have "stored (fst ?st') u i = clip (stored (fst st) u i + default_weight a)"
    using record_stored [of "fst st" "snd st" u i a None] by simp
  then have "- 5 \<le> stored (fst ?st') u i \<and> stored (fst ?st') u i \<le> 5"
    using clip_bounds by simp
  from Suc.IH [OF this] show ?case by simp
qed

text \<open>
  C1: from a value in \<open>[-5, 5]\<close> (0 for a pair the matrix does not hold yet), whatever the
  action, the weight and the fate of the log append, the value stored for the pair after
  \<^verbatim>\<open>record\<close> is in \<open>[-5, 5]\<close>; a \<^verbatim>\<open>like\<close> stores the old value plus the delta 1, clamped at
  5, which is strictly more than the old value whenever that was below 5; and no number of
  repeated \<^verbatim>\<open>dislike\<close> calls brings the value below \<open>-5\<close>.
\<close>

theorem record_keeps_bounds:
  assumes "- 5 \<le> stored df u i" and "stored df u i \<le> 5"
  shows "(- 5 \<le> at_get (fst (snd (FeedbackManager_record (df, lg) u i a wo))) u i \<and>
          at_get (fst (snd (FeedbackManager_record (df, lg) u i a wo))) u i \<le> 5) \<and>
         at_get (fst (snd (FeedbackManager_record (df, lg) u i ''like'' None))) u i
           = min 5 (stored df u i + 1) \<and>
         (stored df u i < 5 \<longrightarrow>
            stored df u i < at_get (fst (snd (FeedbackManager_record (df, lg) u i ''like'' None))) u i) \<and>
         - 5 \<le> stored (fst (record_times n (df, lg) u i ''dislike'')) u i"
proof -
  have range: "- 5 \<le> at_get (fst (snd (FeedbackManager_record (df, lg) u i a wo))) u i \<and>
               at_get (fst (snd (FeedbackManager_record (df, lg) u i a wo))) u i \<le> 5"
    using clip_bounds by (simp add: record_at_get)
  have like: "at_get (fst (snd (FeedbackManager_record (df, lg) u i ''like'' None))) u i
                = clip (stored df u i + 1)"
    by (simp add: record_at_get default_weight_like)
  have clamped: "clip (stored df u i + 1) = min 5 (stored df u i + 1)"
    using assms by (simp add: clip_eq)
  have strict: "stored df u i < 5 \<longrightarrow> stored df u i < clip (stored df u i + 1)"
    using assms by (simp add: clip_eq)
  have rep: "- 5 \<le> stored (fst (record_times n (df, lg) u i ''dislike'')) u i"
    using record_times_cell_bounds [of "(df, lg)" u i n "''dislike''"] assms by simp
  show ?thesis
    using range like clamped strict rep by simp
qed

theorem record_keeps_bounds_witness:
  "at_get (fst (snd (FeedbackManager_record
       (\<lparr>index = [''u1''], columns = [''i1''], cells = (\<lambda>_ _. 9 / 2)\<rparr>, Unwritable)
       ''u1'' ''i1'' ''like'' None))) ''u1'' ''i1'' = 5 \<and>
   - 5 \<le> stored (fst (record_times 7
       (\<lparr>index = [''u1''], columns = [''i1''], cells = (\<lambda>_ _. 9 / 2)\<rparr>, Unwritable)
       ''u1'' ''i1'' ''dislike'')) ''u1'' ''i1''"
  using record_keeps_bounds [of "\<lparr>index = [''u1''], columns = [''i1''], cells = (\<lambda>_ _. 9 / 2)\<rparr>"
      "''u1''" "''i1''" Unwritable "''like''" None 7]
  by (simp add: stored_def)

text \<open>
  C4: the frame is written before the log is opened. Whether the append succeeds or raises
  \<open>OSError\<close>, the frame the call leaves behind is the updated one, and the value of the pair
  in it is the old value plus the delta, clipped; when the append fails the call itself
  raises, and the frame is the same as after a call whose append succeeded.
\<close>

theorem record_update_despite_log_failure:
  "fst (snd (FeedbackManager_record (df, lg) u i a wo))
     = update_value df u i (case wo of None \<Rightarrow> default_weight a | Some w \<Rightarrow> w) \<and>
   at_get (fst (snd (FeedbackManager_record (df, Unwritable) u i a wo))) u i
     = clip (stored df u i + (case wo of None \<Rightarrow> default_weight a | Some w \<Rightarrow> w)) \<and>
   fst (FeedbackManager_record (df, Unwritable) u i a wo) = Inl (OSError ''Permission denied'') \<and>
   fst (snd (FeedbackManager_record (df, Unwritable) u i a wo))
     = fst (snd (FeedbackManager_record (df, Lines ls) u i a wo))"
  using record_frame [of "(df, lg)" u i a wo] record_frame [of "(df, Unwritable)" u i a wo]
    record_frame [of "(df, Lines ls)" u i a wo] record_at_get [of df Unwritable u i a wo]
    record_result_fail [of df u i a wo]
  by simp

theorem record_update_despite_log_failure_witness:
  "at_get (fst (snd (FeedbackManager_record
       (\<lparr>index = [''u1''], columns = [''i1''], cells = (\<lambda>_ _. 2)\<rparr>, Unwritable)
       ''u2'' ''i1'' ''like'' None))) ''u2'' ''i1'' = 1 \<and>
   fst (FeedbackManager_record
       (\<lparr>index = [''u1''], columns = [''i1''], cells = (\<lambda>_ _. 2)\<rparr>, Unwritable)
       ''u2'' ''i1'' ''like'' None) = Inl (OSError ''Permission denied'')"
proof -
  note t = record_update_despite_log_failure
    [of "\<lparr>index = [''u1''], columns = [''i1''], cells = (\<lambda>_ _. 2)\<rparr>" Unwritable
      "''u2''" "''i1''" "''like''" None "[]"]
  have v: "clip (stored \<lparr>index = [''u1''], columns = [''i1''], cells = (\<lambda>_ _. 2)\<rparr> ''u2'' ''i1''
             + (case None of None \<Rightarrow> default_weight ''like'' | Some w \<Rightarrow> w)) = 1"
    by (simp add: stored_def default_weight_like clip_def)
  from t v show ?thesis by metis
qed

text \<open>
  C10: an action outside \<^verbatim>\<open>like\<close>, \<^verbatim>\<open>dislike\<close>, \<^verbatim>\<open>skip\<close>, with no explicit weight, gets the
  delta \<open>1/10\<close> of \<^verbatim>\<open>skip\<close>. With a log that can be appended to, the call returns normally,
  the value of the pair is the old one plus \<open>1/10\<close>, clipped, and the line appended to the
  log carries the action as it was given. Whatever the log, the call ends as the same call
  with \<^verbatim>\<open>skip\<close> does and leaves the same frame.
\<close>

theorem record_unknown_action:
  assumes "a \<noteq> ''like''" and "a \<noteq> ''dislike''" and "a \<noteq> ''skip''"
  shows "FeedbackManager_record (df, Lines ls) u i a None
           = (Inr (), update_value df u i (1 / 10),
              Lines (ls @ [\<lparr>le_user_id = u, le_item_id = i, le_action = a, le_delta = 1 / 10\<rparr>])) \<and>
         at_get (update_value df u i (1 / 10)) u i = clip (stored df u i + 1 / 10) \<and>
         fst (FeedbackManager_record (df, lg) u i a None)
           = fst (FeedbackManager_record (df, lg) u i ''skip'' None) \<and>
         fst (snd (FeedbackManager_record (df, lg) u i a None))
           = fst (snd (FeedbackManager_record (df, lg) u i ''skip'' None))"
proof -
  have w: "default_weight a = 1 / 10"
    using assms by (rule default_weight_unknown)
  have full: "FeedbackManager_record (df, Lines ls) u i a None
           = (Inr (), update_value df u i (1 / 10),
              Lines (ls @ [\<lparr>le_user_id = u, le_item_id = i, le_action = a, le_delta = 1 / 10\<rparr>]))"
    by (simp add: FeedbackManager_record_def Let_def w)
  have cell: "at_get (update_value df u i (1 / 10)) u i = clip (stored df u i + 1 / 10)"
    by (simp add: update_value_cell at_get_def)
  have res: "fst (FeedbackManager_record (df, lg) u i a None)
           = fst (FeedbackManager_record (df, lg) u i ''skip'' None)"
    by (cases lg) (simp_all add: record_result_ok record_result_fail)
  have frame: "fst (snd (FeedbackManager_record (df, lg) u i a None))
           = fst (snd (FeedbackManager_record (df, lg) u i ''skip'' None))"
    by (simp add: record_frame w default_weight_skip)
  show ?thesis
    using full cell res frame by simp
qed

theorem record_unknown_action_witness:
  "FeedbackManager_record
     (\<lparr>index = [''u1''], columns = [''i1''], cells = (\<lambda>_ _. 2)\<rparr>, Lines []) ''u1'' ''i1'' ''love'' None
   = (Inr (),
      update_value \<lparr>index = [''u1''], columns = [''i1''], cells = (\<lambda>_ _. 2)\<rparr> ''u1'' ''i1'' (1 / 10),
      Lines [\<lparr>le_user_id = ''u1'', le_item_id = ''i1'', le_action = ''love'', le_delta = 1 / 10\<rparr>]) \<and>
   at_get (update_value \<lparr>index = [''u1''], columns = [''i1''], cells = (\<lambda>_ _. 2)\<rparr> ''u1'' ''i1'' (1 / 10))
     ''u1'' ''i1'' = 21 / 10"
  using record_unknown_action
    [of "''love''" "\<lparr>index = [''u1''], columns = [''i1''], cells = (\<lambda>_ _. 2)\<rparr>" "[]" "''u1''" "''i1''"]
  by (simp add: stored_def clip_def)

section \<open>Evaluation: the frame is restored, an exception leaves the loop\<close>

lemma at_set_restore: "at_set (at_set df u t v) u t (at_get df u t) = df"
  by (simp add: at_set_def at_get_def)

lemma eval_user_frame:
  "fst (snd (snd (eval_user rcm k u (s, df, acc)))) = df"
  by (simp add: eval_user_def Let_def at_set_restore split: list.splits sum.splits prod.splits)

lemma eval_loop_frame:
  "fst (snd (snd (eval_loop rcm k us (s, df, acc)))) = df"
proof (induction us arbitrary: s acc)
  case Nil
  then show ?case by simp
next
  case (Cons u us)
  obtain r s' df' acc' where step: "eval_user rcm k u (s, df, acc) = (r, s', df', acc')"
    by (metis prod_cases4)
  have "df' = df"
    using eval_user_frame [of rcm k u s df acc] step by simp
  with step Cons.IH show ?case
    by (cases r) simp_all
qed

lemma evaluate_frame: "snd (snd (evaluate_holdout_at_k rcm s df k)) = df"
proof -
  obtain r s' df' acc where run:
    "eval_loop rcm k (index df) (s, df, \<lparr>precisions = [], recalls = [], f1s = [], maps = []\<rparr>)
       = (r, s', df', acc)"
    by (metis prod_cases4)
  have "df' = df"
    using eval_loop_frame [of rcm k "index df" s df
        "\<lparr>precisions = [], recalls = [], f1s = [], maps = []\<rparr>"]
    by (simp only: run fst_conv snd_conv)
  with run show ?thesis
    by (cases r) (simp_all add: evaluate_holdout_at_k_def)
qed


text \<open>
  C2: for every recommender (whatever it returns or raises, whatever its state), every
  frame and every \<open>k\<close>, the frame that \<^verbatim>\<open>evaluate_holdout_at_k\<close> leaves behind is the frame
  it was given: each masked entry is written back by the \<^verbatim>\<open>finally\<close> clause, on the normal
  exit and on the exit by an exception of the recommend call.
\<close>

theorem evaluate_restores_frame:
  "snd (snd (evaluate_holdout_at_k rcm s df k)) = df"
  by (rule evaluate_frame)

theorem evaluate_restores_frame_witness:
  "fst (evaluate_holdout_at_k (raising_for ''u2'' [''i1'']) () two_users 3)
     = Inl (Raised ''recommend failed'') \<and>
   snd (snd (evaluate_holdout_at_k (raising_for ''u2'' [''i1'']) () two_users 3)) = two_users"
proof -
  have "fst (evaluate_holdout_at_k (raising_for ''u2'' [''i1'']) () two_users 3)
          = Inl (Raised ''recommend failed'')"
    by (simp add: evaluate_holdout_at_k_def two_users_def eval_user_def pos_items_def
        try_body_def raising_for_def Let_def at_set_def at_get_def)
  then show ?thesis
    using evaluate_restores_frame [of "raising_for ''u2'' [''i1'']" "()" two_users 3] by simp
qed





section \<open>Evaluation: average precision with one held-out item\<close>

lemma ap_loop_miss: "t \<notin> set ps \<Longrightarrow> ap_loop {t} ps i hits score = score"
  by (induction ps arbitrary: i) auto

lemma ap_loop_first_hit:
  "t \<notin> set xs \<Longrightarrow>
   ap_loop {t} (xs @ t # ys) i hits score
     = ap_loop {t} ys (i + length xs + 1) (hits + 1) (score + real (hits + 1) / real (i + length xs))"
  by (induction xs arbitrary: i) (auto simp: add.assoc)

lemma ap_single_miss:
  "t \<notin> set (take (nat (max 1 k)) predicted) \<Longrightarrow> average_precision_at_k [t] predicted k = 0"
  by (simp add: average_precision_at_k_def Let_def ap_loop_miss)

lemma ap_single_hit:
  assumes "take (nat (max 1 k)) predicted = xs @ t # ys" and "t \<notin> set xs" and "t \<notin> set ys"
  shows "average_precision_at_k [t] predicted k = 1 / real (length xs + 1)"
proof -
  have "ap_loop {t} (xs @ t # ys) 1 0 0 = 1 / real (1 + length xs)"
    using assms(2,3) by (simp add: ap_loop_first_hit ap_loop_miss)
  moreover have "min (nat (max 1 k)) (card {t}) = 1"
    by simp
  ultimately show ?thesis
    by (simp add: average_precision_at_k_def Let_def assms(1) add.commute)
qed

lemma try_body_records_average_precision:
  assumes "rcm s df u k = (Inr recs, s')" and "ids recs = Inr predicted"
  shows "\<exists>acc'. try_body rcm s df u t k acc = (Inr acc', s') \<and>
           maps acc' = maps acc @ [average_precision_at_k [t] predicted k]"
  by (simp add: try_body_def assms append_metrics_def)

text \<open>
  C8: for a ranking (a predicted list without repeats) and \<open>k \<ge> 1\<close>, with the single
  held-out item \<open>t\<close>: the average precision over the top \<open>k\<close> of the list is 0 when \<open>t\<close>
  is not among them, and \<open>1 / rank\<close> when it is, \<open>rank = r + 1\<close> being its 1-based
  position there. This is the value \<^verbatim>\<open>evaluate_holdout_at_k\<close> records for the user, from
  the ids of what the recommend call returned.
\<close>

theorem average_precision_single_item:
  assumes "distinct predicted" and "1 \<le> k"
  shows "(t \<notin> set (take (nat k) predicted) \<longrightarrow> average_precision_at_k [t] predicted k = 0) \<and>
         (\<forall>r. r < length (take (nat k) predicted) \<and> take (nat k) predicted ! r = t \<longrightarrow>
            average_precision_at_k [t] predicted k = 1 / real (r + 1)) \<and>
         (\<forall>recs. rcm s df u k = (Inr recs, s') \<and> ids recs = Inr predicted \<longrightarrow>
            (\<exists>acc'. try_body rcm s df u t k acc = (Inr acc', s') \<and>
               maps acc' = maps acc @ [average_precision_at_k [t] predicted k]))"
proof -
  let ?top = "take (nat k) predicted"
  have k: "max 1 k = k"
    using assms(2) by simp
  have miss: "t \<notin> set ?top \<longrightarrow> average_precision_at_k [t] predicted k = 0"
    using ap_single_miss [of t k predicted] by (simp add: k)
  have hit: "average_precision_at_k [t] predicted k = 1 / real (r + 1)"
    if r: "r < length ?top" and at: "?top ! r = t" for r
  proof -
    have split: "?top = take r ?top @ t # drop (Suc r) ?top"
      using id_take_nth_drop [OF r] at by simp
    have d: "distinct (take r ?top @ t # drop (Suc r) ?top)"
      using assms(1) split by (metis distinct_take)
    have before: "t \<notin> set (take r ?top)" and after: "t \<notin> set (drop (Suc r) ?top)"
      using d by auto
    have len: "length (take r ?top) = r"
      using r by simp
    have "take (nat (max 1 k)) predicted = take r ?top @ t # drop (Suc r) ?top"
      using split by (simp add: k)
    from ap_single_hit [OF this before after] show ?thesis
      by (simp only: len)
  qed
  have rec: "\<exists>acc'. try_body rcm s df u t k acc = (Inr acc', s') \<and>
               maps acc' = maps acc @ [average_precision_at_k [t] predicted k]"
    if "rcm s df u k = (Inr recs, s')" and "ids recs = Inr predicted" for recs
    using that by (rule try_body_records_average_precision)
  show ?thesis
    using miss hit rec by blast
qed

theorem average_precision_single_item_witness:
  "average_precision_at_k [''a''] [''b'', ''a'', ''c''] 3 = 1 / 2 \<and>
   average_precision_at_k [''a''] [''b'', ''a'', ''c''] 1 = 0"
proof -
  have d: "distinct [''b'', ''a'', ''c'']"
    by simp
  have k3: "(1::int) \<le> 3" and k1: "(1::int) \<le> 1"
    by simp_all
  have pos: "(1::nat) < length (take (nat 3) [''b'', ''a'', ''c'']) \<and>
             take (nat 3) [''b'', ''a'', ''c''] ! 1 = ''a''"
    by simp
  have hit: "average_precision_at_k [''a''] [''b'', ''a'', ''c''] 3 = 1 / real (1 + 1)"
    using average_precision_single_item
      [OF d k3, of "''a''", THEN conjunct2, THEN conjunct1, THEN spec, of 1] pos
    by blast
  have out: "''a'' \<notin> set (take (nat 1) [''b'', ''a'', ''c''])"
    by simp
  have miss: "average_precision_at_k [''a''] [''b'', ''a'', ''c''] 1 = 0"
    using average_precision_single_item [OF d k1, of "''a''", THEN conjunct1] out
    by blast
  show ?thesis
    using hit miss by simp
qed

section \<open>Loading: the columns of the interaction matrix\<close>

lemma map_of_update_other:
  "k' \<noteq> k \<Longrightarrow> map_of (AList.update k v al) k' = map_of al k'"
  by (simp add: update_conv')

lemma map_of_cells:
  "map_of (map (\<lambda>(c, vs). (c, map cell_of vs)) raw) key = map_option (map cell_of) (map_of raw key)"
  by (induction raw) auto

lemma standardize_item_id:
  "map_of (standardize_items raw) ''item_id'' = map_option (map cell_of) (map_of raw ''item_id'')"
  by (simp add: standardize_items_def Let_def map_of_update_other map_of_cells split: option.splits)

lemma load_ok_cases:
  assumes "load_reco_datasets items_csv interactions_csv = Inr (items, interactions)"
  shows "\<exists>raw df ids. items_csv = Inr raw \<and> interactions_csv = Inr df \<and>
           map_of raw ''item_id'' = Some ids \<and>
           items = standardize_items raw \<and>
           interactions = reindex_columns df (map cell_of ids) 0"
proof -
  obtain raw where raw: "items_csv = Inr raw"
    using assms by (cases items_csv) (simp_all add: load_reco_datasets_def)
  obtain df where df: "interactions_csv = Inr df"
    using assms raw by (cases interactions_csv) (simp_all add: load_reco_datasets_def Let_def)
  show ?thesis
  proof (cases "map_of raw ''item_id''")
    case None
    then show ?thesis
      using assms raw df
      by (simp add: load_reco_datasets_def Let_def standardize_item_id)
  next
    case (Some ids)
    then show ?thesis
      using assms raw df
      by (auto simp add: load_reco_datasets_def Let_def standardize_item_id)
  qed
qed

text \<open>
  C7: when \<^verbatim>\<open>load_reco_datasets\<close> succeeds, both files were read, the catalog has an
  \<^verbatim>\<open>item_id\<close> column, and the columns of the interaction matrix returned are that column's
  values, in its order: a catalog item has a column whether or not the file had one, a
  column of the file that the catalog does not list is not there any more, the rows are
  those of the file, and a cell is the file's value where the file had the column and 0
  where it had not.
\<close>

theorem load_columns_are_catalog_ids:
  assumes "load_reco_datasets items_csv interactions_csv = Inr (items, interactions)"
  shows "\<exists>raw df ids. items_csv = Inr raw \<and> interactions_csv = Inr df \<and>
           map_of raw ''item_id'' = Some ids \<and>
           map_of items ''item_id'' = Some (map cell_of ids) \<and>
           columns interactions = map cell_of ids \<and>
           index interactions = index df \<and>
           (\<forall>u c. cells interactions u c = (if c \<in> set (columns df) then cells df u c else 0))"
proof -
  obtain raw df ids where h: "items_csv = Inr raw" "interactions_csv = Inr df"
    "map_of raw ''item_id'' = Some ids" "items = standardize_items raw"
    "interactions = reindex_columns df (map cell_of ids) 0"
    using load_ok_cases [OF assms] by blast
  have "map_of items ''item_id'' = Some (map cell_of ids)"
    by (simp add: h(3,4) standardize_item_id)
  moreover have "columns interactions = map cell_of ids" "index interactions = index df"
    "\<forall>u c. cells interactions u c = (if c \<in> set (columns df) then cells df u c else 0)"
    by (simp_all add: h(5) reindex_columns_def)
  ultimately show ?thesis
    using h(1,2,3) by blast
qed

theorem load_columns_are_catalog_ids_witness:
  "load_reco_datasets (Inr catalog_csv) (Inr ratings_csv)
     = Inr (standardize_items catalog_csv, reindex_columns ratings_csv [Str ''A'', Str ''B''] 0) \<and>
   columns (reindex_columns ratings_csv [Str ''A'', Str ''B''] 0) = [Str ''A'', Str ''B''] \<and>
   cells (reindex_columns ratings_csv [Str ''A'', Str ''B''] 0) ''U'' (Str ''A'') = 0 \<and>
   cells (reindex_columns ratings_csv [Str ''A'', Str ''B''] 0) ''U'' (Str ''B'') = 2"
proof -
  have ids: "map_of catalog_csv ''item_id'' = Some [Some ''A'', Some ''B'']"
    by (simp add: catalog_csv_def)
  have run: "load_reco_datasets (Inr catalog_csv) (Inr ratings_csv)
     = Inr (standardize_items catalog_csv, reindex_columns ratings_csv [Str ''A'', Str ''B''] 0)"
    by (simp add: load_reco_datasets_def Let_def standardize_item_id ids cell_of_def)
  from load_columns_are_catalog_ids [OF run]
  obtain raw df ids' where h: "Inr catalog_csv = (Inr raw :: error + csv_table)"
    "Inr ratings_csv = (Inr df :: error + (string, cell) frame)"
    "map_of raw ''item_id'' = Some ids'"
    "columns (reindex_columns ratings_csv [Str ''A'', Str ''B''] 0) = map cell_of ids'"
    "\<forall>u c. cells (reindex_columns ratings_csv [Str ''A'', Str ''B''] 0) u c
        = (if c \<in> set (columns df) then cells df u c else 0)"
    by blast
  have raw: "raw = catalog_csv" and df: "df = ratings_csv"
    using h(1,2) by simp_all
  have "ids' = [Some ''A'', Some ''B'']"
    using h(3) ids by (simp add: raw)
  then have cols: "columns (reindex_columns ratings_csv [Str ''A'', Str ''B''] 0) = [Str ''A'', Str ''B'']"
    using h(4) by (simp add: cell_of_def)
  have a: "cells (reindex_columns ratings_csv [Str ''A'', Str ''B''] 0) ''U'' (Str ''A'') = 0"
    using h(5) by (simp add: df ratings_csv_def)
  have b: "cells (reindex_columns ratings_csv [Str ''A'', Str ''B''] 0) ''U'' (Str ''B'') = 2"
    using h(5) by (simp add: df ratings_csv_def)
  show ?thesis
    using run cols a b by simp
qed

section \<open>The feedback endpoint: rejected requests\<close>

lemma feedback_try_400:
  assumes data: "(if truthy j then j else JObj []) = JObj kvs"
    and conv: "py_float parse (case map_of kvs ''rating'' of None \<Rightarrow> JInt 0 | Some v \<Rightarrow> v) = Inr f"
    and invalid: "\<not> truthy (get_or_none (map_of kvs ''user_id'')) \<or>
                  \<not> truthy (get_or_none (map_of kvs ''item_id'')) \<or> le_zero f"
  shows "\<exists>msg. feedback_try api parse ts (Inr j) st = (Inr (error_response 400 msg), st)"
  using invalid
  by (auto simp add: feedback_try_def data dict_get_def conv Let_def)

lemma feedback_try_500:
  assumes data: "(if truthy j then j else JObj []) = JObj kvs"
    and conv: "py_float parse (case map_of kvs ''rating'' of None \<Rightarrow> JInt 0 | Some v \<Rightarrow> v) = Inl e"
  shows "feedback_try api parse ts (Inr j) st = (Inl e, st)"
  by (simp add: feedback_try_def data dict_get_def conv Let_def)

text \<open>
  When \<^verbatim>\<open>float\<close> accepts the rating field (or the field is absent), a request without
  \<^verbatim>\<open>user_id\<close> or \<^verbatim>\<open>item_id\<close>, or with a rating that is not positive, gets the 400 validation
  error and changes nothing.
\<close>

lemma feedback_400:
  assumes data: "(if truthy j then j else JObj []) = JObj kvs"
    and conv: "py_float parse (case map_of kvs ''rating'' of None \<Rightarrow> JInt 0 | Some v \<Rightarrow> v) = Inr f"
    and invalid: "\<not> truthy (get_or_none (map_of kvs ''user_id'')) \<or>
                  \<not> truthy (get_or_none (map_of kvs ''item_id'')) \<or> le_zero f"
  shows "status_code (fst (feedback api parse ts (Inr j) st)) = 400 \<and>
         snd (feedback api parse ts (Inr j) st) = st"
proof -
  obtain msg where "feedback_try api parse ts (Inr j) st = (Inr (error_response 400 msg), st)"
    using feedback_try_400 [OF assms] by blast
  then show ?thesis
    by (simp add: feedback_def error_response_def)
qed

text \<open>When \<^verbatim>\<open>float\<close> raises, the identifiers are never looked at.\<close>

lemma feedback_500:
  assumes data: "(if truthy j then j else JObj []) = JObj kvs"
    and conv: "py_float parse (case map_of kvs ''rating'' of None \<Rightarrow> JInt 0 | Some v \<Rightarrow> v) = Inl e"
  shows "feedback api parse ts (Inr j) st = (error_response 500 (str_error e), st)"
  by (simp add: feedback_def feedback_try_500 [OF assms])

text \<open>
  C5: the endpoint converts the rating with \<^verbatim>\<open>float\<close> before it looks at the identifiers.
  The request \<^verbatim>\<open>{"item_id": "i1", "rating": null}\<close> has no \<^verbatim>\<open>user_id\<close>; \<^verbatim>\<open>float(None)\<close> raises
  \<open>TypeError\<close> and the answer is the 500 of the catch-all handler, not the 400 validation
  error that the same request without the \<^verbatim>\<open>rating\<close> field gets. Neither request changes
  the state of the service.
\<close>

theorem feedback_converts_rating_before_id_check:
  "status_code (fst (feedback counting_engine two_literals ''2026-01-01T00:00:00''
       (Inr (JObj [(''item_id'', JStr ''i1''), (''rating'', JNull)])) fresh_state)) = 500 \<and>
   snd (feedback counting_engine two_literals ''2026-01-01T00:00:00''
       (Inr (JObj [(''item_id'', JStr ''i1''), (''rating'', JNull)])) fresh_state) = fresh_state \<and>
   feedback counting_engine two_literals ''2026-01-01T00:00:00''
       (Inr (JObj [(''item_id'', JStr ''i1'')])) fresh_state
     = (error_response 400 ''user_id and item_id are required'', fresh_state)"
  by (simp add: feedback_def feedback_try_def dict_get_def get_or_none_def int_too_large_def
      error_response_def)

section \<open>The metrics endpoint: the cache\<close>








end
